theory Spec2Isabelle
  imports Main "HOL-Library.Word"
begin

section \<open>Data model\<close>

text \<open>
  A pointer into task stacks (\<^verbatim>\<open>UInt8*\<close>) is a 64-bit address, with 0 for
  \<^verbatim>\<open>nullptr\<close>, and \<^verbatim>\<open>size_t\<close> is the unsigned integer of the same width: the sum of
  a pointer and a size wraps around at \<open>2 ^ 64\<close>. A pointer to a task control block
  (\<^verbatim>\<open>Task*\<close>) is the handle of the block, in units of one block. A null \<^verbatim>\<open>Task*\<close>
  occurs only as the result of \<^verbatim>\<open>allocate()\<close> and is \<open>None\<close> there.
\<close>

type_synonym addr = "64 word"
type_synonym tid = nat

text \<open>
  The values a task passes to a system call, one constructor for each argument type
  the routines read with \<^verbatim>\<open>getSyscallArgument<T>()\<close>: \<^verbatim>\<open>int\<close>, \<^verbatim>\<open>UInt8*\<close>,
  \<^verbatim>\<open>std::pair<UInt8*, size_t>\<close>, \<^verbatim>\<open>UInt32\<close> and \<^verbatim>\<open>Task::Priority\<close>.
\<close>

datatype sysarg =
    IntArg int
  | PointerArg addr
  | StackArg addr "64 word"
  | UInt32Arg "32 word"
  | PriorityArg nat

text \<open>
  How a routine ends when it does not return a task. \<open>Fatal\<close> is the diagnostic of
  \<^verbatim>\<open>pfatal\<close> or of a failed \<^verbatim>\<open>precondition\<close>, after which the kernel halts.
  \<open>IllTyped\<close> stands for a use the C++ type system excludes: a requires-clause that
  does not hold, a member that the type does not have, or an argument of another
  type than the one declared (which the compiler rejects, and which \<^verbatim>\<open>va_arg\<close>
  leaves undefined). A fault carries no state: nothing runs after it. The lines that
  \<^verbatim>\<open>pinfo\<close> and \<^verbatim>\<open>perr\<close> print are not part of the state.
\<close>

datatype fault = Fatal string | IllTyped

text \<open>
  The components of \<^verbatim>\<open>TaskControlBlockComponents\<close> a block is assembled from: the
  dedicated stack pointer, the start of the private stack, the unique identifier,
  the priority and the event handler.
\<close>

record tcb =
  stackPointer :: addr
  stack :: addr
  uniqueIdentifier :: "32 word"
  priority :: nat
  handler :: addr

text \<open>
  The execution context saved on top of a task's stack: the argument list behind
  \<^verbatim>\<open>getSyscallArgumentList()\<close> with the position \<^verbatim>\<open>va_arg\<close> has reached, and the
  register that \<^verbatim>\<open>setSyscallKernelReturnValue\<close> writes.
\<close>

record execution_context =
  argumentList :: "nat \<Rightarrow> sysarg"
  cursor :: nat
  kernelReturnValue :: int

text \<open>
  The stack component chosen for the task type: \<^verbatim>\<open>SharedStackSupport\<close> keeps one
  stack pointer for all tasks, \<^verbatim>\<open>DedicatedNonRecyclableStackSupport\<close> (and the
  recyclable one that extends it) one in every block.
\<close>

datatype stack_support = SharedStackSupport | DedicatedStackSupport

record machine =
  tasks :: "tid \<Rightarrow> tcb"
  sharedTaskStackPointer :: addr
  contexts :: "addr \<Rightarrow> execution_context"

text \<open>
  The kernel state a service routine works on: the machine, the scheduler behind
  \<^verbatim>\<open>GetTaskScheduler\<close> and the task controller behind \<^verbatim>\<open>GetTaskController\<close>.
\<close>

record ('s, 'c) kernel =
  machine :: machine
  scheduler :: 's
  controller :: 'c

text \<open>
  The scheduler (\<^verbatim>\<open>Scheduler/Scheduler.hpp\<close>, outside this library) is given by its two
  handlers. A handler reads the machine and changes the scheduler's own state.
\<close>

record 's task_scheduler =
  onTaskCreated :: "tid \<Rightarrow> tid \<Rightarrow> machine \<Rightarrow> 's \<Rightarrow> tid \<times> 's"
  onTaskFinished :: "tid \<Rightarrow> machine \<Rightarrow> 's \<Rightarrow> tid \<times> 's"

text \<open>
  A type passed as a template argument, given by the members that the concepts and
  the routine bodies look up in it: \<^verbatim>\<open>allocate()\<close> and \<^verbatim>\<open>release(task)\<close> of a task
  controller, and \<^verbatim>\<open>operator()(Task*, Arg)\<close> of a task control block initializer.
  A member the type does not declare is \<open>None\<close>.
\<close>

record 'c type_argument =
  allocate :: "('c \<Rightarrow> tid option \<times> 'c) option"
  release :: "(tid \<Rightarrow> 'c \<Rightarrow> 'c) option"
  call_operator :: "(tid \<Rightarrow> sysarg \<Rightarrow> machine \<Rightarrow> fault + bool \<times> machine) option"

section \<open>Task control block components\<close>

definition getStackPointer :: "stack_support \<Rightarrow> tid \<Rightarrow> machine \<Rightarrow> addr" where
  "getStackPointer ss task m =
     (case ss of
        SharedStackSupport \<Rightarrow> sharedTaskStackPointer m
      | DedicatedStackSupport \<Rightarrow> stackPointer (tasks m task))"

definition setStackPointer :: "stack_support \<Rightarrow> tid \<Rightarrow> addr \<Rightarrow> machine \<Rightarrow> machine" where
  "setStackPointer ss task newStackPointer m =
     (case ss of
        SharedStackSupport \<Rightarrow> m\<lparr>sharedTaskStackPointer := newStackPointer\<rparr>
      | DedicatedStackSupport \<Rightarrow>
          m\<lparr>tasks := (tasks m)(task := (tasks m task)\<lparr>stackPointer := newStackPointer\<rparr>)\<rparr>)"

text \<open>
  \<^verbatim>\<open>DedicatedRecyclableStackSupport::setPrivateStack\<close> takes its parameter as
  \<^verbatim>\<open>const UInt8* newStack\<close> and assigns it to the member \<^verbatim>\<open>UInt8* stack\<close>. The
  assignment drops the \<^verbatim>\<open>const\<close>, a conversion the language does not have, so the
  member function is rejected wherever it is used and the member is never written.
\<close>

definition setPrivateStack :: "tid \<Rightarrow> addr \<Rightarrow> machine \<Rightarrow> fault + machine" where
  "setPrivateStack task newStack m = Inl IllTyped"

definition setUniqueIdentifier :: "tid \<Rightarrow> 32 word \<Rightarrow> machine \<Rightarrow> machine" where
  "setUniqueIdentifier task newIdentifier m =
     m\<lparr>tasks := (tasks m)(task := (tasks m task)\<lparr>uniqueIdentifier := newIdentifier\<rparr>)\<rparr>"

definition getPriority :: "tid \<Rightarrow> machine \<Rightarrow> nat" where
  "getPriority task m = priority (tasks m task)"

definition setPriority :: "tid \<Rightarrow> nat \<Rightarrow> machine \<Rightarrow> machine" where
  "setPriority task newPriority m =
     m\<lparr>tasks := (tasks m)(task := (tasks m task)\<lparr>priority := newPriority\<rparr>)\<rparr>"

definition setHandler :: "tid \<Rightarrow> addr \<Rightarrow> machine \<Rightarrow> machine" where
  "setHandler task newHandler m =
     m\<lparr>tasks := (tasks m)(task := (tasks m task)\<lparr>handler := newHandler\<rparr>)\<rparr>"

text \<open>
  \<^verbatim>\<open>SystemCallSupport\<close>: the execution context is whatever lies at the task's current
  stack pointer.
\<close>

definition getExecutionContext :: "stack_support \<Rightarrow> tid \<Rightarrow> machine \<Rightarrow> execution_context" where
  "getExecutionContext ss task m = contexts m (getStackPointer ss task m)"

text \<open>
  \<^verbatim>\<open>va_arg(*ptr, Arg)\<close>: the value under the cursor is returned and the cursor moves
  on by one value.
\<close>

definition getSyscallArgument :: "stack_support \<Rightarrow> tid \<Rightarrow> machine \<Rightarrow> sysarg \<times> machine" where
  "getSyscallArgument ss task m =
     (let sp = getStackPointer ss task m;
          c = contexts m sp
      in (argumentList c (cursor c),
          m\<lparr>contexts := (contexts m)(sp := c\<lparr>cursor := cursor c + 1\<rparr>)\<rparr>))"

definition setSyscallKernelReturnValue :: "stack_support \<Rightarrow> tid \<Rightarrow> int \<Rightarrow> machine \<Rightarrow> machine" where
  "setSyscallKernelReturnValue ss task retVal m =
     (let sp = getStackPointer ss task m
      in m\<lparr>contexts := (contexts m)(sp := (contexts m sp)\<lparr>kernelReturnValue := retVal\<rparr>)\<rparr>)"

section \<open>Common kernel service routines\<close>

text \<open>
  Modelled from the spec: the macro \<^verbatim>\<open>pfatal\<close> of \<^verbatim>\<open>Debug.hpp\<close>, which is not
  part of this library's sources. A fatal error emits a diagnostic and halts; the
  call never returns.
\<close>

definition pfatal :: "string \<Rightarrow> fault + 'a" where
  "pfatal message = Inl (Fatal message)"

definition UnknownServiceIdentifier :: "tid \<Rightarrow> 'k \<Rightarrow> fault + tid \<times> 'k" where
  "UnknownServiceIdentifier task k = pfatal ''Unknown system call identifier.''"

definition TaskControllerProvidesBasicAllocationSupport :: "'c type_argument \<Rightarrow> bool" where
  "TaskControllerProvidesBasicAllocationSupport c \<longleftrightarrow> allocate c \<noteq> None \<and> release c \<noteq> None"

section \<open>Thread-based model: creating a thread\<close>

text \<open>
  Modelled from the spec: the macro \<^verbatim>\<open>precondition\<close> of \<^verbatim>\<open>Debug.hpp\<close>, which is
  not part of this library's sources. A violated precondition is a fatal error: it
  emits the diagnostic and halts.
\<close>

definition precondition :: "bool \<Rightarrow> string \<Rightarrow> fault + unit" where
  "precondition condition message = (if condition then Inr () else Inl (Fatal message))"

text \<open>
  The initializers of namespace \<^verbatim>\<open>KPI\<close> that take their argument from a system call
  and do not allocate memory: first \<^verbatim>\<open>operator()\<close> of each with the argument type it
  declares as \<^verbatim>\<open>Arg\<close>, then the initializer as a type. The task type is assembled
  from the components of \<^verbatim>\<open>TaskControlBlockComponents\<close>. The architecture's
  \<^verbatim>\<open>TaskContextBuilder\<close> is a parameter.
\<close>

definition AssignDedicatedRecyclableStackWithSize_call ::
  "stack_support \<Rightarrow> tid \<Rightarrow> addr \<times> 64 word \<Rightarrow> machine \<Rightarrow> fault + bool \<times> machine" where
  "AssignDedicatedRecyclableStackWithSize_call ss task stackInfo m =
     (case setPrivateStack task (fst stackInfo) m of
        Inl e \<Rightarrow> Inl e
      | Inr m1 \<Rightarrow> Inr (True, setStackPointer ss task (fst stackInfo + snd stackInfo) m1))"

definition SetupExecutionContext_call ::
  "stack_support \<Rightarrow> (tid \<Rightarrow> addr \<Rightarrow> machine \<Rightarrow> machine) \<Rightarrow> tid \<Rightarrow> addr \<Rightarrow> machine
   \<Rightarrow> fault + bool \<times> machine" where
  "SetupExecutionContext_call ss TaskContextBuilder task entryPoint m =
     (case precondition (getStackPointer ss task m \<noteq> 0)
             ''No stack is assigned to the given task.'' of
        Inl e \<Rightarrow> Inl e
      | Inr _ \<Rightarrow> Inr (True, TaskContextBuilder task entryPoint m))"

definition AssignUniqueIdentifier_call :: "tid \<Rightarrow> 32 word \<Rightarrow> machine \<Rightarrow> bool \<times> machine" where
  "AssignUniqueIdentifier_call task newIdentifier m = (True, setUniqueIdentifier task newIdentifier m)"

definition AssignPriority_call :: "tid \<Rightarrow> nat \<Rightarrow> machine \<Rightarrow> bool \<times> machine" where
  "AssignPriority_call task newPriority m = (True, setPriority task newPriority m)"

definition initializer ::
  "(tid \<Rightarrow> sysarg \<Rightarrow> machine \<Rightarrow> fault + bool \<times> machine) \<Rightarrow> 'c type_argument" where
  "initializer f = \<lparr>allocate = None, release = None, call_operator = Some f\<rparr>"

definition AssignDedicatedRecyclableStackWithSize :: "stack_support \<Rightarrow> 'c type_argument" where
  "AssignDedicatedRecyclableStackWithSize ss =
     initializer (\<lambda>task a m.
       case a of
         StackArg stackBase stackSize \<Rightarrow>
           AssignDedicatedRecyclableStackWithSize_call ss task (stackBase, stackSize) m
       | _ \<Rightarrow> Inl IllTyped)"

definition SetupExecutionContext ::
  "stack_support \<Rightarrow> (tid \<Rightarrow> addr \<Rightarrow> machine \<Rightarrow> machine) \<Rightarrow> 'c type_argument" where
  "SetupExecutionContext ss TaskContextBuilder =
     initializer (\<lambda>task a m.
       case a of
         PointerArg entryPoint \<Rightarrow> SetupExecutionContext_call ss TaskContextBuilder task entryPoint m
       | _ \<Rightarrow> Inl IllTyped)"

definition AssignUniqueIdentifier :: "'c type_argument" where
  "AssignUniqueIdentifier =
     initializer (\<lambda>task a m.
       case a of
         UInt32Arg newIdentifier \<Rightarrow> Inr (AssignUniqueIdentifier_call task newIdentifier m)
       | _ \<Rightarrow> Inl IllTyped)"

definition AssignPriority :: "'c type_argument" where
  "AssignPriority =
     initializer (\<lambda>task a m.
       case a of
         PriorityArg newPriority \<Rightarrow> Inr (AssignPriority_call task newPriority m)
       | _ \<Rightarrow> Inl IllTyped)"

text \<open>
  The fold \<^verbatim>\<open>((Initializers{}(task, args)) && ...)\<close> over the two packs, from the
  left: \<^verbatim>\<open>&&\<close> does not evaluate its right operand when the left one is false, and
  the fold over empty packs is \<^verbatim>\<open>true\<close>.
\<close>

fun fold_initializers ::
  "('c type_argument \<times> sysarg) list \<Rightarrow> tid \<Rightarrow> machine \<Rightarrow> fault + bool \<times> machine" where
  "fold_initializers [] task m = Inr (True, m)"
| "fold_initializers ((I, a) # rest) task m =
     (case call_operator I of
        None \<Rightarrow> Inl IllTyped
      | Some f \<Rightarrow>
          (case f task a m of
             Inl e \<Rightarrow> Inl e
           | Inr (ok, m1) \<Rightarrow> if ok then fold_initializers rest task m1 else Inr (False, m1)))"

text \<open>
  \<^verbatim>\<open>TaskInitializerBuilderWithArgs::operator()\<close>, with its requires-clause
  \<^verbatim>\<open>sizeof...(Initializers) == sizeof...(Args)\<close>.
\<close>

definition TaskInitializerBuilderWithArgs ::
  "'c type_argument list \<Rightarrow> tid \<Rightarrow> sysarg list \<Rightarrow> machine \<Rightarrow> fault + bool \<times> machine" where
  "TaskInitializerBuilderWithArgs Initializers task args m =
     (if length Initializers = length args
      then fold_initializers (zip Initializers args) task m
      else Inl IllTyped)"

text \<open>
  \<^verbatim>\<open>ServiceRoutineBuilder::operator()\<close>, the form invoked in the kernel. The template
  is well-formed when \<^verbatim>\<open>TaskController\<close> satisfies
  \<^verbatim>\<open>TaskControllerProvidesBasicAllocationSupport\<close> and the call of
  \<^verbatim>\<open>TaskInitializerBuilderWithArgs\<close> in its body satisfies that operator's
  requires-clause; both are decided before the routine runs.
\<close>

definition ServiceRoutineBuilder ::
  "stack_support \<Rightarrow> 's task_scheduler \<Rightarrow> 'c type_argument \<Rightarrow> 'c type_argument list
   \<Rightarrow> tid \<Rightarrow> sysarg list \<Rightarrow> ('s, 'c) kernel \<Rightarrow> fault + tid \<times> ('s, 'c) kernel" where
  "ServiceRoutineBuilder ss TaskScheduler TaskController Initializers task args k =
     (case (allocate TaskController, release TaskController) of
        (Some controller_allocate, Some controller_release) \<Rightarrow>
          if length Initializers = length args then
            (case controller_allocate (controller k) of
               (None, c1) \<Rightarrow>
                 Inr (task,
                      \<lparr>machine = setSyscallKernelReturnValue ss task (- 1) (machine k),
                       scheduler = scheduler k,
                       controller = c1\<rparr>)
             | (Some newTask, c1) \<Rightarrow>
                 (case TaskInitializerBuilderWithArgs Initializers newTask args (machine k) of
                    Inl e \<Rightarrow> Inl e
                  | Inr (ok, m1) \<Rightarrow>
                      if \<not> ok then
                        Inr (task,
                             \<lparr>machine = setSyscallKernelReturnValue ss task (- 1) m1,
                              scheduler = scheduler k,
                              controller = controller_release newTask c1\<rparr>)
                      else
                        (case onTaskCreated TaskScheduler task newTask m1 (scheduler k) of
                           (nextTask, s1) \<Rightarrow>
                             Inr (nextTask,
                                  \<lparr>machine = m1, scheduler = s1, controller = c1\<rparr>))))
          else Inl IllTyped
      | _ \<Rightarrow> Inl IllTyped)"

definition execute ::
  "stack_support \<Rightarrow> 's task_scheduler \<Rightarrow> 'c type_argument \<Rightarrow> 'c type_argument list
   \<Rightarrow> tid \<Rightarrow> sysarg list \<Rightarrow> ('s, 'c) kernel \<Rightarrow> fault + tid \<times> ('s, 'c) kernel" where
  "execute ss TaskScheduler TaskController Initializers task args k =
     ServiceRoutineBuilder ss TaskScheduler TaskController Initializers task args k"

text \<open>
  The collector of \<^verbatim>\<open>ServiceRoutineBuilderWithTaskArgs\<close>: a fold over the index
  sequence of the initializers with the comma operator, so one read of the argument
  cursor for each initializer, from the left.
\<close>

fun collector :: "stack_support \<Rightarrow> 'i list \<Rightarrow> tid \<Rightarrow> machine \<Rightarrow> sysarg list \<times> machine" where
  "collector ss [] task m = ([], m)"
| "collector ss (I # Is) task m =
     (case getSyscallArgument ss task m of
        (a, m1) \<Rightarrow> (case collector ss Is task m1 of (as, m2) \<Rightarrow> (a # as, m2)))"

text \<open>
  \<^verbatim>\<open>ServiceRoutineBuilderWithTaskArgs::operator()\<close>, the form that services the system
  call. Its last statement names \<^verbatim>\<open>ServiceRoutineBuilder<Task, TaskScheduler,
  Initializers...>::execute\<close>, while the parameters of \<^verbatim>\<open>ServiceRoutineBuilder\<close> are
  \<^verbatim>\<open><Task, TaskScheduler, TaskController, Initializers...>\<close>: the pack fills the
  parameters from the left, so its first type is taken for \<^verbatim>\<open>TaskController\<close> and
  the others for \<^verbatim>\<open>Initializers\<close>; an empty pack leaves \<^verbatim>\<open>TaskController\<close> without
  an argument. The \<^verbatim>\<open>TaskController\<close> of this template occurs in its requires-clause
  only.
\<close>

definition ServiceRoutineBuilderWithTaskArgs ::
  "stack_support \<Rightarrow> 's task_scheduler \<Rightarrow> 'c type_argument \<Rightarrow> 'c type_argument list
   \<Rightarrow> tid \<Rightarrow> ('s, 'c) kernel \<Rightarrow> fault + tid \<times> ('s, 'c) kernel" where
  "ServiceRoutineBuilderWithTaskArgs ss TaskScheduler TaskController Initializers task k =
     (if TaskControllerProvidesBasicAllocationSupport TaskController then
        (case collector ss Initializers task (machine k) of
           (arguments, m1) \<Rightarrow>
             (case Initializers of
                [] \<Rightarrow> Inl IllTyped
              | first # others \<Rightarrow>
                  execute ss TaskScheduler first others task arguments (k\<lparr>machine := m1\<rparr>)))
      else Inl IllTyped)"

section \<open>Event-driven model\<close>

text \<open>
  \<^verbatim>\<open>TableBasedEventController\<close> holds \<^verbatim>\<open>Task tasks[NumTasks]\<close>; the blocks of the array
  are the handles \<open>tasksBase\<close>, \<open>tasksBase + 1\<close>, ... Both members index the array
  with the event as it comes: \<^verbatim>\<open>&this->tasks[event]\<close> is the handle \<open>event\<close> blocks
  after the first one, inside the array or not.
\<close>

record TableBasedEventController =
  tasksBase :: tid
  NumTasks :: nat

definition registerEvent :: "TableBasedEventController \<Rightarrow> nat \<Rightarrow> addr \<Rightarrow> machine \<Rightarrow> machine" where
  "registerEvent this event newHandler m = setHandler (tasksBase this + event) newHandler m"

definition getRegisteredEvent :: "TableBasedEventController \<Rightarrow> nat \<Rightarrow> tid" where
  "getRegisteredEvent this event = tasksBase this + event"

text \<open>
  \<^verbatim>\<open>SyscallSendEvent\<close>. The \<^verbatim>\<open>TaskMapper\<close> is a parameter (concept
  \<^verbatim>\<open>Event2TaskMapper\<close>): a default-constructed functor from the event number to the
  handler's control block, which may itself end in a fault.
\<close>

definition SyscallSendEvent ::
  "stack_support \<Rightarrow> 's task_scheduler \<Rightarrow> (int \<Rightarrow> fault + tid) \<Rightarrow> tid \<Rightarrow> ('s, 'c) kernel
   \<Rightarrow> fault + tid \<times> ('s, 'c) kernel" where
  "SyscallSendEvent ss TaskScheduler TaskMapper task k =
     (case getSyscallArgument ss task (machine k) of
        (a, m1) \<Rightarrow>
          (case a of
             IntArg event \<Rightarrow>
               (case TaskMapper event of
                  Inl e \<Rightarrow> Inl e
                | Inr handlerTask \<Rightarrow>
                    (case onTaskCreated TaskScheduler task handlerTask m1 (scheduler k) of
                       (nextTask, s1) \<Rightarrow> Inr (nextTask, k\<lparr>machine := m1, scheduler := s1\<rparr>)))
           | _ \<Rightarrow> Inl IllTyped))"

definition SyscallEventHandlerReturn ::
  "stack_support \<Rightarrow> 's task_scheduler \<Rightarrow> tid \<Rightarrow> ('s, 'c) kernel
   \<Rightarrow> fault + tid \<times> ('s, 'c) kernel" where
  "SyscallEventHandlerReturn ss TaskScheduler task k =
     (case getSyscallArgument ss task (machine k) of
        (a, m1) \<Rightarrow>
          (case a of
             PointerArg oldStackPointer \<Rightarrow>
               (let m2 = setStackPointer ss task oldStackPointer m1
                in case onTaskFinished TaskScheduler task m2 (scheduler k) of
                     (nextTask, s1) \<Rightarrow> Inr (nextTask, k\<lparr>machine := m2, scheduler := s1\<rparr>))
           | _ \<Rightarrow> Inl IllTyped))"

text \<open>
  Modelled from the spec: \<^verbatim>\<open>operator>\<close> on tasks, declared in
  \<^verbatim>\<open>Scheduler/Constraint/Prioritizable.hpp\<close>, which is not part of this library's
  sources. A priority is a totally ordered value, larger is higher, and the
  comparison is \<open>prio(a) > prio(b)\<close>.
\<close>

definition task_greater :: "tid \<Rightarrow> tid \<Rightarrow> machine \<Rightarrow> bool" where
  "task_greater a b m \<longleftrightarrow> getPriority a m > getPriority b m"

text \<open>The two code injectors; the architecture's \<^verbatim>\<open>ContextBuilder\<close> is a parameter.\<close>

definition PreemptiveEventHandlerTrampolineContextInjector ::
  "(tid \<Rightarrow> tid \<Rightarrow> machine \<Rightarrow> machine) \<Rightarrow> tid \<Rightarrow> tid \<Rightarrow> machine \<Rightarrow> machine" where
  "PreemptiveEventHandlerTrampolineContextInjector ContextBuilder prev nxt m =
     (if task_greater nxt prev m then ContextBuilder prev nxt m else m)"

definition CooperativeEventHandlerTrampolineContextInjector ::
  "(tid \<Rightarrow> tid \<Rightarrow> machine \<Rightarrow> machine) \<Rightarrow> tid \<Rightarrow> tid \<Rightarrow> machine \<Rightarrow> machine" where
  "CooperativeEventHandlerTrampolineContextInjector ContextBuilder prev nxt m =
     (if nxt \<noteq> prev then ContextBuilder prev nxt m else m)"

section \<open>Dispatcher\<close>

record dispatcher =
  prevTask :: tid
  nextTask :: tid

text \<open>
  The fold \<^verbatim>\<open>((Injector{}(this->prev, this->next)), ...)\<close> with the comma operator:
  every injector, from the left.
\<close>

primrec injections :: "(tid \<Rightarrow> tid \<Rightarrow> 'k \<Rightarrow> 'k) list \<Rightarrow> tid \<Rightarrow> tid \<Rightarrow> 'k \<Rightarrow> 'k" where
  "injections [] prev nxt k = k"
| "injections (Injector # Injectors) prev nxt k = injections Injectors prev nxt (Injector prev nxt k)"

text \<open>
  \<^verbatim>\<open>Dispatcher::dispatch\<close>. The loop \<^verbatim>\<open>while (true)\<close> has no exit, so the first argument
  bounds the number of iterations that are run; an iteration whose service routine
  ends in a fault ends the loop with it. The context switcher and the service
  routine mapper are parameters; the state \<open>'k\<close> is whatever they work on.
\<close>

fun dispatch ::
  "nat \<Rightarrow> (tid \<Rightarrow> tid \<Rightarrow> 'k \<Rightarrow> 'k) list \<Rightarrow> (tid \<Rightarrow> tid \<Rightarrow> 'k \<Rightarrow> 'id \<times> 'k)
   \<Rightarrow> ('id \<Rightarrow> tid \<Rightarrow> 'k \<Rightarrow> fault + tid \<times> 'k) \<Rightarrow> dispatcher \<times> 'k \<Rightarrow> fault + dispatcher \<times> 'k" where
  "dispatch 0 Injectors switchTask ServiceRoutineMapper (this, k) = Inr (this, k)"
| "dispatch (Suc n) Injectors switchTask ServiceRoutineMapper (this, k) =
     (let k1 = injections Injectors (prevTask this) (nextTask this) k
      in case switchTask (prevTask this) (nextTask this) k1 of
           (serviceIdentifier, k2) \<Rightarrow>
             (let this1 = this\<lparr>prevTask := nextTask this\<rparr>
              in case ServiceRoutineMapper serviceIdentifier (prevTask this1) k2 of
                   Inl e \<Rightarrow> Inl e
                 | Inr (t, k3) \<Rightarrow>
                     dispatch n Injectors switchTask ServiceRoutineMapper
                       (this1\<lparr>nextTask := t\<rparr>, k3)))"

section \<open>Notions used to state the properties\<close>

text \<open>
  The initializer \<open>I\<close>, invoked on \<open>task\<close> with the argument \<open>a\<close> in the state \<open>m\<close>,
  returns \<open>ok\<close> and leaves the state \<open>m'\<close>.
\<close>

definition initializer_returns ::
  "'c type_argument \<Rightarrow> tid \<Rightarrow> sysarg \<Rightarrow> machine \<Rightarrow> bool \<Rightarrow> machine \<Rightarrow> bool" where
  "initializer_returns I task a m ok m' =
     (case call_operator I of None \<Rightarrow> False | Some f \<Rightarrow> f task a m = Inr (ok, m'))"

text \<open>
  The system call form of \<^verbatim>\<open>create_thread\<close> in the spec's words, to be compared with
  \<open>ServiceRoutineBuilderWithTaskArgs\<close>: collect the initializer arguments from the
  argument cursor in declaration order, then delegate to the in-kernel form, with
  the same scheduler, task controller and initializers.
\<close>

definition create_thread_syscall_form_spec ::
  "stack_support \<Rightarrow> 's task_scheduler \<Rightarrow> 'c type_argument \<Rightarrow> 'c type_argument list
   \<Rightarrow> tid \<Rightarrow> ('s, 'c) kernel \<Rightarrow> fault + tid \<times> ('s, 'c) kernel" where
  "create_thread_syscall_form_spec ss TaskScheduler TaskController Initializers task k =
     (case collector ss Initializers task (machine k) of
        (arguments, m1) \<Rightarrow>
          ServiceRoutineBuilder ss TaskScheduler TaskController Initializers task arguments
            (k\<lparr>machine := m1\<rparr>))"

section \<open>Sample configuration\<close>

text \<open>
  A small kernel on which the properties below are instantiated: every block starts
  with its stack pointer at address 64, so the execution context of a task with a
  dedicated stack, and of every task on the shared stack, is the one at 64; its
  argument list is given. The task controller hands out the blocks of a free list,
  the scheduler prefers the new task when its priority is higher and falls back to
  task 0 when a task finishes, and one initializer reports failure, as the allocating
  initializers do when the kernel is out of memory.
\<close>

definition sample_machine :: "(nat \<Rightarrow> sysarg) \<Rightarrow> machine" where
  "sample_machine arguments =
     \<lparr>tasks = (\<lambda>t. \<lparr>stackPointer = 64, stack = 0, uniqueIdentifier = 0, priority = 0, handler = 0\<rparr>),
      sharedTaskStackPointer = 64,
      contexts = (\<lambda>a. \<lparr>argumentList = arguments, cursor = 0, kernelReturnValue = 0\<rparr>)\<rparr>"

definition pool_allocate :: "tid list \<Rightarrow> tid option \<times> tid list" where
  "pool_allocate free = (case free of [] \<Rightarrow> (None, []) | t # ts \<Rightarrow> (Some t, ts))"

definition pool_release :: "tid \<Rightarrow> tid list \<Rightarrow> tid list" where
  "pool_release t free = t # free"

definition pool_controller :: "tid list type_argument" where
  "pool_controller =
     \<lparr>allocate = Some pool_allocate, release = Some pool_release, call_operator = None\<rparr>"

definition sample_scheduler :: "unit task_scheduler" where
  "sample_scheduler =
     \<lparr>onTaskCreated = (\<lambda>current new m s.
         (if getPriority new m > getPriority current m then new else current, s)),
      onTaskFinished = (\<lambda>current m s. (0, s))\<rparr>"

definition failing_initializer :: "'c type_argument" where
  "failing_initializer = initializer (\<lambda>task a m. Inr (False, m))"

section \<open>Properties\<close>

subsection \<open>Auxiliary facts\<close>

lemma kernelReturnValue_set [simp]:
  "kernelReturnValue (getExecutionContext ss task (setSyscallKernelReturnValue ss task v m)) = v"
  by (cases ss) (simp_all add: getExecutionContext_def setSyscallKernelReturnValue_def
      getStackPointer_def Let_def)

lemma getStackPointer_contexts_update [simp]:
  "getStackPointer ss task (m\<lparr>contexts := cs\<rparr>) = getStackPointer ss task m"
  by (cases ss) (simp_all add: getStackPointer_def)

lemma injections_foldl:
  "injections Injectors prev nxt k = foldl (\<lambda>k Injector. Injector prev nxt k) k Injectors"
  by (induction Injectors arbitrary: k) simp_all

text \<open>
  The fold returns true exactly when there is a run of states through all the
  initializers, each invoked on its own argument in the state its predecessor left
  and each returning true; it returns false exactly when such a run leads to an
  initializer that returns false, and the state is then the one this initializer
  left.
\<close>

lemma fold_initializers_true_iff:
  "fold_initializers ps task m = Inr (True, m') \<longleftrightarrow>
     (\<exists>ms. ms 0 = m \<and> ms (length ps) = m' \<and>
        (\<forall>i<length ps. initializer_returns (fst (ps ! i)) task (snd (ps ! i)) (ms i) True (ms (Suc i))))"
proof (induction ps arbitrary: m)
  case Nil
  show ?case by auto
next
  case (Cons p ps)
  obtain I a where p: "p = (I, a)" by (cases p)
  show ?case
  proof
    assume L: "fold_initializers (p # ps) task m = Inr (True, m')"
    then obtain m1 where f: "initializer_returns I task a m True m1"
      and rest: "fold_initializers ps task m1 = Inr (True, m')"
      by (auto simp: p initializer_returns_def split: option.splits sum.splits if_splits)
    from rest Cons.IH obtain ms where ms: "ms 0 = m1" "ms (length ps) = m'"
      "\<forall>i<length ps. initializer_returns (fst (ps ! i)) task (snd (ps ! i)) (ms i) True (ms (Suc i))"
      by blast
    let ?ms = "\<lambda>i. case i of 0 \<Rightarrow> m | Suc j \<Rightarrow> ms j"
    have "\<forall>i<length (p # ps).
            initializer_returns (fst ((p # ps) ! i)) task (snd ((p # ps) ! i)) (?ms i) True (?ms (Suc i))"
      using f ms by (auto simp: p nth_Cons split: nat.splits)
    then show "\<exists>ms. ms 0 = m \<and> ms (length (p # ps)) = m' \<and>
        (\<forall>i<length (p # ps).
            initializer_returns (fst ((p # ps) ! i)) task (snd ((p # ps) ! i)) (ms i) True (ms (Suc i)))"
      using ms(2) by (intro exI[of _ ?ms]) auto
  next
    assume "\<exists>ms. ms 0 = m \<and> ms (length (p # ps)) = m' \<and>
        (\<forall>i<length (p # ps).
            initializer_returns (fst ((p # ps) ! i)) task (snd ((p # ps) ! i)) (ms i) True (ms (Suc i)))"
    then obtain ms where ms: "ms 0 = m" "ms (Suc (length ps)) = m'"
      and st: "\<And>i. i < Suc (length ps) \<Longrightarrow>
            initializer_returns (fst ((p # ps) ! i)) task (snd ((p # ps) ! i)) (ms i) True (ms (Suc i))"
      by auto
    from st[of 0] ms(1) have f: "initializer_returns I task a m True (ms 1)"
      by (auto simp: p)
    have "\<exists>ms'. ms' 0 = ms 1 \<and> ms' (length ps) = m' \<and>
        (\<forall>i<length ps. initializer_returns (fst (ps ! i)) task (snd (ps ! i)) (ms' i) True (ms' (Suc i)))"
      using ms(2) st[of "Suc _"] by (intro exI[of _ "\<lambda>i. ms (Suc i)"]) auto
    then have "fold_initializers ps task (ms 1) = Inr (True, m')" using Cons.IH by blast
    then show "fold_initializers (p # ps) task m = Inr (True, m')"
      using f by (auto simp: p initializer_returns_def split: option.splits)
  qed
qed

lemma fold_initializers_false_iff:
  "fold_initializers ps task m = Inr (False, m') \<longleftrightarrow>
     (\<exists>j<length ps. \<exists>ms. ms 0 = m \<and>
        (\<forall>i<j. initializer_returns (fst (ps ! i)) task (snd (ps ! i)) (ms i) True (ms (Suc i))) \<and>
        initializer_returns (fst (ps ! j)) task (snd (ps ! j)) (ms j) False m')"
proof (induction ps arbitrary: m)
  case Nil
  show ?case by auto
next
  case (Cons p ps)
  obtain I a where p: "p = (I, a)" by (cases p)
  show ?case
  proof
    assume L: "fold_initializers (p # ps) task m = Inr (False, m')"
    then consider (stop) "initializer_returns I task a m False m'"
      | (go) m1 where "initializer_returns I task a m True m1"
          "fold_initializers ps task m1 = Inr (False, m')"
      by (auto simp: p initializer_returns_def split: option.splits sum.splits if_splits)
    then show "\<exists>j<length (p # ps). \<exists>ms. ms 0 = m \<and>
        (\<forall>i<j. initializer_returns (fst ((p # ps) ! i)) task (snd ((p # ps) ! i)) (ms i) True (ms (Suc i))) \<and>
        initializer_returns (fst ((p # ps) ! j)) task (snd ((p # ps) ! j)) (ms j) False m'"
    proof cases
      case stop
      then show ?thesis
        by (intro exI[of _ 0] conjI exI[of _ "\<lambda>_. m"]) (auto simp: p)
    next
      case go
      from go(2) Cons.IH obtain j ms where j: "j < length ps" and ms: "ms 0 = m1"
        "\<forall>i<j. initializer_returns (fst (ps ! i)) task (snd (ps ! i)) (ms i) True (ms (Suc i))"
        "initializer_returns (fst (ps ! j)) task (snd (ps ! j)) (ms j) False m'"
        by blast
      let ?ms = "\<lambda>i. case i of 0 \<Rightarrow> m | Suc j \<Rightarrow> ms j"
      have "\<forall>i<Suc j.
            initializer_returns (fst ((p # ps) ! i)) task (snd ((p # ps) ! i)) (?ms i) True (?ms (Suc i))"
        using go(1) ms by (auto simp: p nth_Cons split: nat.splits)
      then show ?thesis
        using j ms(3) by (intro exI[of _ "Suc j"] conjI exI[of _ ?ms]) auto
    qed
  next
    assume "\<exists>j<length (p # ps). \<exists>ms. ms 0 = m \<and>
        (\<forall>i<j. initializer_returns (fst ((p # ps) ! i)) task (snd ((p # ps) ! i)) (ms i) True (ms (Suc i))) \<and>
        initializer_returns (fst ((p # ps) ! j)) task (snd ((p # ps) ! j)) (ms j) False m'"
    then obtain j ms where j: "j < Suc (length ps)" and ms: "ms 0 = m"
      and st: "\<And>i. i < j \<Longrightarrow>
            initializer_returns (fst ((p # ps) ! i)) task (snd ((p # ps) ! i)) (ms i) True (ms (Suc i))"
      and last: "initializer_returns (fst ((p # ps) ! j)) task (snd ((p # ps) ! j)) (ms j) False m'"
      by auto
    show "fold_initializers (p # ps) task m = Inr (False, m')"
    proof (cases j)
      case 0
      then show ?thesis using last ms
        by (auto simp: p initializer_returns_def split: option.splits)
    next
      case (Suc j')
      from st[of 0] ms Suc have f: "initializer_returns I task a m True (ms 1)"
        by (auto simp: p)
      have "\<exists>j<length ps. \<exists>ms'. ms' 0 = ms 1 \<and>
        (\<forall>i<j. initializer_returns (fst (ps ! i)) task (snd (ps ! i)) (ms' i) True (ms' (Suc i))) \<and>
        initializer_returns (fst (ps ! j)) task (snd (ps ! j)) (ms' j) False m'"
        using j Suc last st[of "Suc _"]
        by (intro exI[of _ j'] conjI exI[of _ "\<lambda>i. ms (Suc i)"]) auto
      then have "fold_initializers ps task (ms 1) = Inr (False, m')" using Cons.IH by blast
      then show ?thesis
        using f by (auto simp: p initializer_returns_def split: option.splits)
    qed
  qed
qed

text \<open>
  The collector reads as many values as there are initializers, from the cursor
  onwards and in that order, and leaves the cursor behind the last one.
\<close>

lemma collector_reads:
  assumes "sp = getStackPointer ss task m" and "c = contexts m sp"
  shows "collector ss Is task m =
           (map (\<lambda>i. argumentList c (cursor c + i)) [0..<length Is],
            m\<lparr>contexts := (contexts m)(sp := c\<lparr>cursor := cursor c + length Is\<rparr>)\<rparr>)"
  using assms
proof (induction Is arbitrary: m c)
  case Nil
  then show ?case by simp
next
  case (Cons I Is)
  let ?c1 = "c\<lparr>cursor := Suc (cursor c)\<rparr>"
  let ?m1 = "m\<lparr>contexts := (contexts m)(sp := ?c1)\<rparr>"
  have g: "getSyscallArgument ss task m = (argumentList c (cursor c), ?m1)"
    using Cons.prems by (simp add: getSyscallArgument_def Let_def)
  have ih: "collector ss Is task ?m1 =
           (map (\<lambda>i. argumentList ?c1 (cursor ?c1 + i)) [0..<length Is],
            ?m1\<lparr>contexts := (contexts ?m1)(sp := ?c1\<lparr>cursor := cursor ?c1 + length Is\<rparr>)\<rparr>)"
    by (rule Cons.IH) (simp_all add: Cons.prems)
  have A: "map (\<lambda>i. argumentList c (cursor c + i)) [0..<length (I # Is)]
        = argumentList c (cursor c) # map (\<lambda>i. argumentList c (Suc (cursor c + i))) [0..<length Is]"
    by (simp add: map_upt_Suc del: upt_Suc)
  have B: "collector ss (I # Is) task m =
      (argumentList c (cursor c) # map (\<lambda>i. argumentList c (Suc (cursor c + i))) [0..<length Is],
       m\<lparr>contexts := (contexts m)(sp := c\<lparr>cursor := cursor c + length (I # Is)\<rparr>)\<rparr>)"
    by (simp add: g ih)
  show ?case unfolding A by (rule B)
qed

lemma collector_length:
  "collector ss Is task m = (arguments, m1) \<Longrightarrow> length arguments = length Is"
  using collector_reads[OF refl refl, of ss Is task m] by auto

text \<open>
  The form the spec describes hands the form invoked in the kernel the values under
  the caller's argument cursor, the \<open>k\<close>-th value read for the \<open>k\<close>-th initializer.
\<close>

lemma create_thread_syscall_form_spec_arguments:
  "create_thread_syscall_form_spec ss TaskScheduler TaskController Initializers task k =
     ServiceRoutineBuilder ss TaskScheduler TaskController Initializers task
       (map (\<lambda>i. argumentList (getExecutionContext ss task (machine k))
                   (cursor (getExecutionContext ss task (machine k)) + i))
            [0..<length Initializers])
       (k\<lparr>machine := (machine k)\<lparr>contexts := (contexts (machine k))
             (getStackPointer ss task (machine k) :=
                (getExecutionContext ss task (machine k))
                  \<lparr>cursor := cursor (getExecutionContext ss task (machine k))
                              + length Initializers\<rparr>)\<rparr>\<rparr>)"
  unfolding create_thread_syscall_form_spec_def getExecutionContext_def
  by (simp add: collector_reads[OF refl refl])

text \<open>
  As it is written, the form that services the system call is rejected for every list
  of initializers: the empty list leaves \<^verbatim>\<open>TaskController\<close> without an argument, and
  a list of \<open>n + 1\<close> initializers gives the first one as the task controller and
  \<open>n + 1\<close> collected arguments to the \<open>n\<close> initializers that remain.
\<close>

lemma ServiceRoutineBuilderWithTaskArgs_rejected:
  "ServiceRoutineBuilderWithTaskArgs ss TaskScheduler TaskController Initializers task k = Inl IllTyped"
proof -
  obtain arguments m1 where c: "collector ss Initializers task (machine k) = (arguments, m1)"
    by (cases "collector ss Initializers task (machine k)")
  have "length arguments = length Initializers"
    using collector_length[OF c] .
  then show ?thesis
    by (auto simp: ServiceRoutineBuilderWithTaskArgs_def c execute_def ServiceRoutineBuilder_def
        split: list.splits option.splits)
qed

text \<open>
  The four initializers that do not allocate memory never return false: each returns
  true or ends in a fault.
\<close>

lemma canonical_initializer_not_false:
  assumes "I \<in> {AssignDedicatedRecyclableStackWithSize ss, SetupExecutionContext ss TaskContextBuilder,
                AssignUniqueIdentifier, AssignPriority}"
  shows "\<not> initializer_returns I task a m False m'"
  using assms
  by (auto simp: initializer_returns_def initializer_def
      AssignDedicatedRecyclableStackWithSize_def SetupExecutionContext_def
      AssignUniqueIdentifier_def AssignPriority_def
      AssignDedicatedRecyclableStackWithSize_call_def SetupExecutionContext_call_def
      AssignUniqueIdentifier_call_def AssignPriority_call_def precondition_def
      setPrivateStack_def split: sysarg.splits if_splits)

lemma canonical_initializers_not_false:
  assumes "set Initializers \<subseteq>
             {AssignDedicatedRecyclableStackWithSize ss, SetupExecutionContext ss TaskContextBuilder,
              AssignUniqueIdentifier, AssignPriority}"
  shows "TaskInitializerBuilderWithArgs Initializers newTask args m \<noteq> Inr (False, m')"
proof
  assume F: "TaskInitializerBuilderWithArgs Initializers newTask args m = Inr (False, m')"
  then have len: "length Initializers = length args"
    by (simp add: TaskInitializerBuilderWithArgs_def split: if_splits)
  with F obtain j ms where j: "j < length Initializers"
    and r: "initializer_returns (Initializers ! j) newTask (args ! j) (ms j) False m'"
    by (simp add: TaskInitializerBuilderWithArgs_def fold_initializers_false_iff cong: conj_cong) blast
  from j assms have "Initializers ! j \<in>
             {AssignDedicatedRecyclableStackWithSize ss, SetupExecutionContext ss TaskContextBuilder,
              AssignUniqueIdentifier, AssignPriority}"
    using nth_mem by blast
  from canonical_initializer_not_false[OF this] r show False by blast
qed

text \<open>
  The initializers that do not call \<open>setPrivateStack\<close>: \<open>AssignUniqueIdentifier\<close>
  and \<open>AssignPriority\<close> return true for every task, argument and state, and
  \<open>SetupExecutionContext\<close> returns true whenever the task's stack pointer is not null.
\<close>

lemma AssignUniqueIdentifier_call_true:
  "\<exists>m'. AssignUniqueIdentifier_call task newIdentifier m = (True, m')"
  by (simp add: AssignUniqueIdentifier_call_def)

lemma AssignPriority_call_true:
  "\<exists>m'. AssignPriority_call task newPriority m = (True, m')"
  by (simp add: AssignPriority_call_def)

lemma SetupExecutionContext_call_true:
  "getStackPointer ss task m \<noteq> 0 \<Longrightarrow>
     \<exists>m'. SetupExecutionContext_call ss TaskContextBuilder task entryPoint m = Inr (True, m')"
  by (simp add: SetupExecutionContext_call_def precondition_def)

text \<open>
  With initializers out of the four named below, the routine has no way into the branch that
  releases the new block and reports -1: once \<open>allocate\<close> has returned a block it ends
  in the fault of an initializer or returns the scheduler's choice.
\<close>

lemma ServiceRoutineBuilder_failure_branch_not_taken:
  assumes "set Initializers \<subseteq>
         {AssignDedicatedRecyclableStackWithSize ss, SetupExecutionContext ss TaskContextBuilder,
          AssignUniqueIdentifier, AssignPriority}"
    and "allocate TaskController = Some controller_allocate"
    and "release TaskController = Some controller_release"
    and "length Initializers = length args"
    and "controller_allocate (controller k) = (Some newTask, c1)"
  shows "ServiceRoutineBuilder ss TaskScheduler TaskController Initializers task args k =
           (case TaskInitializerBuilderWithArgs Initializers newTask args (machine k) of
              Inl e \<Rightarrow> Inl e
            | Inr (ok, m1) \<Rightarrow>
                (case onTaskCreated TaskScheduler task newTask m1 (scheduler k) of
                   (chosen, s1) \<Rightarrow>
                     Inr (chosen, \<lparr>machine = m1, scheduler = s1, controller = c1\<rparr>)))"
proof -
  from canonical_initializers_not_false[OF assms(1)]
  have "\<And>m'. TaskInitializerBuilderWithArgs Initializers newTask args (machine k) \<noteq> Inr (False, m')" .
  with assms(2-5) show ?thesis
    by (auto simp: ServiceRoutineBuilder_def split: sum.splits prod.splits)
qed

subsection \<open>The claims\<close>

text \<open>
  C1. Evaluated on the sample kernel with the initializers \<open>AssignUniqueIdentifier\<close> and
  \<open>AssignPriority\<close>: the collector of the system call form reads the two values under
  the caller's argument cursor in their order, the identifier 7 and then the priority
  3, and moves the cursor on by two; the routine then ends \<open>IllTyped\<close>, so neither value
  is passed to an initializer.
\<close>

theorem syscall_arguments_reach_no_initializer:
  "collector DedicatedStackSupport [AssignUniqueIdentifier, AssignPriority :: tid list type_argument] 0
       (sample_machine (\<lambda>i. if i = 0 then UInt32Arg 7 else PriorityArg 3))
     = ([UInt32Arg 7, PriorityArg 3],
        (sample_machine (\<lambda>i. if i = 0 then UInt32Arg 7 else PriorityArg 3))
          \<lparr>contexts := (contexts (sample_machine (\<lambda>i. if i = 0 then UInt32Arg 7 else PriorityArg 3)))
             (64 := \<lparr>argumentList = (\<lambda>i. if i = 0 then UInt32Arg 7 else PriorityArg 3),
                     cursor = 2, kernelReturnValue = 0\<rparr>)\<rparr>)
   \<and> ServiceRoutineBuilderWithTaskArgs DedicatedStackSupport sample_scheduler pool_controller
        [AssignUniqueIdentifier, AssignPriority] 0
        \<lparr>machine = sample_machine (\<lambda>i. if i = 0 then UInt32Arg 7 else PriorityArg 3),
         scheduler = (), controller = [1, 2]\<rparr>
      = Inl IllTyped"
proof -
  have "collector DedicatedStackSupport [AssignUniqueIdentifier, AssignPriority :: tid list type_argument] 0
       (sample_machine (\<lambda>i. if i = 0 then UInt32Arg 7 else PriorityArg 3))
     = ([UInt32Arg 7, PriorityArg 3],
        (sample_machine (\<lambda>i. if i = 0 then UInt32Arg 7 else PriorityArg 3))
          \<lparr>contexts := (contexts (sample_machine (\<lambda>i. if i = 0 then UInt32Arg 7 else PriorityArg 3)))
             (64 := \<lparr>argumentList = (\<lambda>i. if i = 0 then UInt32Arg 7 else PriorityArg 3),
                     cursor = 2, kernelReturnValue = 0\<rparr>)\<rparr>)"
    by (simp add: getSyscallArgument_def Let_def getStackPointer_def sample_machine_def
        numeral_2_eq_2)
  then show ?thesis
    by (simp add: ServiceRoutineBuilderWithTaskArgs_rejected)
qed

text \<open>
  C2. Evaluated on the same input: the system call form ends \<open>IllTyped\<close>, while the
  form the spec describes, which hands the collected arguments to the form invoked in
  the kernel with the same scheduler, task controller and initializers, creates task
  1 with identifier 7 and priority 3 and returns it as the next task.
\<close>

theorem syscall_form_differs_from_kernel_form:
  "ServiceRoutineBuilderWithTaskArgs DedicatedStackSupport sample_scheduler pool_controller
        [AssignUniqueIdentifier, AssignPriority] 0
        \<lparr>machine = sample_machine (\<lambda>i. if i = 0 then UInt32Arg 7 else PriorityArg 3),
         scheduler = (), controller = [1, 2]\<rparr>
      = Inl IllTyped
   \<and> create_thread_syscall_form_spec DedicatedStackSupport sample_scheduler pool_controller
        [AssignUniqueIdentifier, AssignPriority] 0
        \<lparr>machine = sample_machine (\<lambda>i. if i = 0 then UInt32Arg 7 else PriorityArg 3),
         scheduler = (), controller = [1, 2]\<rparr>
      = Inr (1, \<lparr>machine = setPriority 1 3 (setUniqueIdentifier 1 7
                   (snd (collector DedicatedStackSupport
                          [AssignUniqueIdentifier, AssignPriority :: tid list type_argument] 0
                          (sample_machine (\<lambda>i. if i = 0 then UInt32Arg 7 else PriorityArg 3))))),
                 scheduler = (), controller = [2]\<rparr>)"
proof -
  have c: "collector DedicatedStackSupport [AssignUniqueIdentifier, AssignPriority :: tid list type_argument] 0
       (sample_machine (\<lambda>i. if i = 0 then UInt32Arg 7 else PriorityArg 3))
     = ([UInt32Arg 7, PriorityArg 3],
        (sample_machine (\<lambda>i. if i = 0 then UInt32Arg 7 else PriorityArg 3))
          \<lparr>contexts := (contexts (sample_machine (\<lambda>i. if i = 0 then UInt32Arg 7 else PriorityArg 3)))
             (64 := \<lparr>argumentList = (\<lambda>i. if i = 0 then UInt32Arg 7 else PriorityArg 3),
                     cursor = 2, kernelReturnValue = 0\<rparr>)\<rparr>)"
    by (simp add: getSyscallArgument_def Let_def getStackPointer_def sample_machine_def
        numeral_2_eq_2)
  show ?thesis
    unfolding create_thread_syscall_form_spec_def kernel.simps c
    by (simp add: ServiceRoutineBuilderWithTaskArgs_rejected ServiceRoutineBuilder_def
        pool_controller_def pool_allocate_def TaskInitializerBuilderWithArgs_def initializer_def
        AssignUniqueIdentifier_def AssignPriority_def AssignUniqueIdentifier_call_def
        AssignPriority_call_def sample_scheduler_def getPriority_def setPriority_def
        setUniqueIdentifier_def sample_machine_def)
qed

text \<open>
  C3. Let the task controller provide \<open>allocate\<close> and \<open>release\<close>, and let \<open>pool\<close> be any
  measure of its state that a failed \<open>allocate\<close> leaves as it is and that \<open>release\<close>
  of the block just allocated restores. Whenever \<open>allocate\<close> returns null, or it
  returns a block and the initializers return false, the routine returns the calling
  task as the next task; it writes -1 to the kernel return value of the caller's
  execution context and nothing else to the machine beyond what the initializers did;
  it does not notify the scheduler; in the second case it releases the new block; and
  the pool measure is what it was before the call.
\<close>

theorem ServiceRoutineBuilder_recoverable_failure:
  assumes "allocate TaskController = Some controller_allocate"
    and "release TaskController = Some controller_release"
    and "length Initializers = length args"
    and "\<And>c c'. controller_allocate c = (None, c') \<Longrightarrow> pool c' = pool c"
    and "\<And>c t c'. controller_allocate c = (Some t, c') \<Longrightarrow> pool (controller_release t c') = pool c"
  shows "(\<forall>c1. controller_allocate (controller k) = (None, c1) \<longrightarrow>
            (\<exists>k'. ServiceRoutineBuilder ss TaskScheduler TaskController Initializers task args k
                    = Inr (task, k')
              \<and> machine k' = setSyscallKernelReturnValue ss task (- 1) (machine k)
              \<and> kernelReturnValue (getExecutionContext ss task (machine k')) = - 1
              \<and> scheduler k' = scheduler k
              \<and> controller k' = c1
              \<and> pool (controller k') = pool (controller k)))
       \<and> (\<forall>newTask c1 m1.
            controller_allocate (controller k) = (Some newTask, c1)
            \<and> TaskInitializerBuilderWithArgs Initializers newTask args (machine k) = Inr (False, m1) \<longrightarrow>
            (\<exists>k'. ServiceRoutineBuilder ss TaskScheduler TaskController Initializers task args k
                    = Inr (task, k')
              \<and> machine k' = setSyscallKernelReturnValue ss task (- 1) m1
              \<and> kernelReturnValue (getExecutionContext ss task (machine k')) = - 1
              \<and> scheduler k' = scheduler k
              \<and> controller k' = controller_release newTask c1
              \<and> pool (controller k') = pool (controller k)))"
  using assms by (auto simp: ServiceRoutineBuilder_def)

theorem ServiceRoutineBuilder_recoverable_failure_witness:
  "(\<exists>k'. ServiceRoutineBuilder DedicatedStackSupport sample_scheduler pool_controller
            [AssignUniqueIdentifier, failing_initializer] 0 [UInt32Arg 7, PointerArg 0]
            \<lparr>machine = sample_machine (\<lambda>i. IntArg 0), scheduler = (), controller = [1, 2]\<rparr>
          = Inr (0, k')
      \<and> kernelReturnValue (getExecutionContext DedicatedStackSupport 0 (machine k')) = - 1
      \<and> controller k' = [1, 2])
   \<and> (\<exists>k'. ServiceRoutineBuilder DedicatedStackSupport sample_scheduler pool_controller
            [AssignUniqueIdentifier, failing_initializer] 0 [UInt32Arg 7, PointerArg 0]
            \<lparr>machine = sample_machine (\<lambda>i. IntArg 0), scheduler = (), controller = []\<rparr>
          = Inr (0, k')
      \<and> kernelReturnValue (getExecutionContext DedicatedStackSupport 0 (machine k')) = - 1
      \<and> controller k' = [])"
proof -
  have a: "allocate pool_controller = Some pool_allocate"
    and r: "release pool_controller = Some pool_release"
    by (simp_all add: pool_controller_def)
  have len: "length [AssignUniqueIdentifier, failing_initializer :: tid list type_argument]
               = length [UInt32Arg 7, PointerArg 0]" by simp
  have p1: "\<And>c c'. pool_allocate c = (None, c') \<Longrightarrow> length c' = length c"
    by (auto simp: pool_allocate_def split: list.splits)
  have p2: "\<And>c t c'. pool_allocate c = (Some t, c') \<Longrightarrow> length (pool_release t c') = length c"
    by (auto simp: pool_allocate_def pool_release_def split: list.splits)
  note T = ServiceRoutineBuilder_recoverable_failure[where pool = length
      and controller_allocate = pool_allocate and controller_release = pool_release
      and ss = DedicatedStackSupport and TaskScheduler = sample_scheduler and task = 0,
      OF a r len p1 p2]
  have ev: "TaskInitializerBuilderWithArgs
        [AssignUniqueIdentifier, failing_initializer :: tid list type_argument] 1
        [UInt32Arg 7, PointerArg 0] (sample_machine (\<lambda>i. IntArg 0))
      = Inr (False, setUniqueIdentifier 1 7 (sample_machine (\<lambda>i. IntArg 0)))"
    by (simp add: TaskInitializerBuilderWithArgs_def AssignUniqueIdentifier_def
        AssignUniqueIdentifier_call_def failing_initializer_def initializer_def)
  have "\<exists>k'. ServiceRoutineBuilder DedicatedStackSupport sample_scheduler pool_controller
            [AssignUniqueIdentifier, failing_initializer] 0 [UInt32Arg 7, PointerArg 0]
            \<lparr>machine = sample_machine (\<lambda>i. IntArg 0), scheduler = (), controller = [1, 2]\<rparr>
          = Inr (0, k')
      \<and> kernelReturnValue (getExecutionContext DedicatedStackSupport 0 (machine k')) = - 1
      \<and> controller k' = [1, 2]"
    using T[where k = "\<lparr>machine = sample_machine (\<lambda>i. IntArg 0), scheduler = (), controller = [1, 2]\<rparr>",
        THEN conjunct2, rule_format, of 1 "[2]"
        "setUniqueIdentifier 1 7 (sample_machine (\<lambda>i. IntArg 0))"] ev
    by (auto simp: pool_allocate_def pool_release_def)
  moreover have "\<exists>k'. ServiceRoutineBuilder DedicatedStackSupport sample_scheduler pool_controller
            [AssignUniqueIdentifier, failing_initializer] 0 [UInt32Arg 7, PointerArg 0]
            \<lparr>machine = sample_machine (\<lambda>i. IntArg 0), scheduler = (), controller = []\<rparr>
          = Inr (0, k')
      \<and> kernelReturnValue (getExecutionContext DedicatedStackSupport 0 (machine k')) = - 1
      \<and> controller k' = []"
    using T[where k = "\<lparr>machine = sample_machine (\<lambda>i. IntArg 0), scheduler = (), controller = []\<rparr>",
        THEN conjunct1, rule_format, of "[]"]
    by (auto simp: pool_allocate_def)
  ultimately show ?thesis by blast
qed

text \<open>
  C4, as stated, fails: with a table of two blocks at handles 10 and 11, the event 5
  is out of range, and \<open>SyscallSendEvent\<close> over \<open>getRegisteredEvent\<close> does not end in a
  fatal error; it resolves the event to the handle 15 and returns that handle, chosen
  by the scheduler, as the next task.
\<close>

theorem SyscallSendEvent_out_of_range_counterexample:
  "\<not> (5 :: nat) < NumTasks \<lparr>tasksBase = 10, NumTasks = 2\<rparr>
   \<and> SyscallSendEvent DedicatedStackSupport sample_scheduler
        (\<lambda>event. Inr (getRegisteredEvent \<lparr>tasksBase = 10, NumTasks = 2\<rparr>
                        (unat (word_of_int event :: 32 word))))
        0 \<lparr>machine = setPriority 15 1 (sample_machine (\<lambda>i. IntArg 5)), scheduler = (), controller = ()\<rparr>
      = Inr (15, \<lparr>machine = snd (getSyscallArgument DedicatedStackSupport 0
                                  (setPriority 15 1 (sample_machine (\<lambda>i. IntArg 5)))),
                 scheduler = (), controller = ()\<rparr>)"
  by (simp add: SyscallSendEvent_def getSyscallArgument_def Let_def getStackPointer_def
      sample_machine_def sample_scheduler_def getRegisteredEvent_def getPriority_def
      setPriority_def)

text \<open>
  C4, amended. For every event number read from the caller's argument cursor, in range
  or not, \<open>SyscallSendEvent\<close> hands the event to the mapper and returns what
  \<open>onTaskCreated\<close> chooses between the caller and the mapper's block; it ends in a
  fault only when the mapper does. \<open>getRegisteredEvent\<close> checks no range either: its
  result is the block \<open>event\<close> places after the first block of the table.
\<close>

theorem SyscallSendEvent_forwards_every_event:
  assumes "getSyscallArgument ss task (machine k) = (IntArg event, m1)"
  shows "SyscallSendEvent ss TaskScheduler TaskMapper task k =
           (case TaskMapper event of
              Inl e \<Rightarrow> Inl e
            | Inr handlerTask \<Rightarrow>
                (case onTaskCreated TaskScheduler task handlerTask m1 (scheduler k) of
                   (chosen, s1) \<Rightarrow> Inr (chosen, k\<lparr>machine := m1, scheduler := s1\<rparr>)))
         \<and> getRegisteredEvent table n = tasksBase table + n"
  using assms by (simp add: SyscallSendEvent_def getRegisteredEvent_def)

theorem SyscallSendEvent_forwards_every_event_witness:
  "getSyscallArgument DedicatedStackSupport 0 (setPriority 15 1 (sample_machine (\<lambda>i. IntArg 5)))
     = (IntArg 5, snd (getSyscallArgument DedicatedStackSupport 0 (setPriority 15 1 (sample_machine (\<lambda>i. IntArg 5)))))
   \<and> SyscallSendEvent DedicatedStackSupport sample_scheduler
        (\<lambda>event. Inr (getRegisteredEvent \<lparr>tasksBase = 10, NumTasks = 2\<rparr>
                        (unat (word_of_int event :: 32 word))))
        0 \<lparr>machine = setPriority 15 1 (sample_machine (\<lambda>i. IntArg 5)), scheduler = (), controller = ()\<rparr>
      = Inr (15, \<lparr>machine = snd (getSyscallArgument DedicatedStackSupport 0
                                  (setPriority 15 1 (sample_machine (\<lambda>i. IntArg 5)))),
                 scheduler = (), controller = ()\<rparr>)
   \<and> getRegisteredEvent \<lparr>tasksBase = 10, NumTasks = 2\<rparr> 5 = 15"
proof -
  have g: "getSyscallArgument DedicatedStackSupport 0
             (machine \<lparr>machine = setPriority 15 1 (sample_machine (\<lambda>i. IntArg 5)), scheduler = (), controller = ()\<rparr>)
     = (IntArg 5, snd (getSyscallArgument DedicatedStackSupport 0 (setPriority 15 1 (sample_machine (\<lambda>i. IntArg 5)))))"
    by (simp add: getSyscallArgument_def Let_def sample_machine_def getStackPointer_def
        setPriority_def)
  from SyscallSendEvent_forwards_every_event[OF g, where TaskScheduler = sample_scheduler
      and TaskMapper = "\<lambda>event. Inr (getRegisteredEvent \<lparr>tasksBase = 10, NumTasks = 2\<rparr>
                        (unat (word_of_int event :: 32 word)))"
      and table = "\<lparr>tasksBase = 10, NumTasks = 2\<rparr>" and n = 5] g
  show ?thesis
    by (simp add: sample_scheduler_def getPriority_def sample_machine_def getRegisteredEvent_def
        setPriority_def getSyscallArgument_def Let_def getStackPointer_def)
qed

text \<open>
  C5. When the value under the task's argument cursor is the pointer \<open>old_sp\<close>,
  \<open>SyscallEventHandlerReturn\<close> sets the task's stack pointer to \<open>old_sp\<close> and changes
  nothing else of the machine after the read, whatever the stack pointer was before;
  with the shared stack component the shared stack pointer is \<open>old_sp\<close> afterwards. The
  next task is the one \<open>onTaskFinished\<close> returns for the task in the machine whose
  stack pointer is already restored.
\<close>

theorem SyscallEventHandlerReturn_restores_stack_pointer:
  assumes "getSyscallArgument ss task (machine k) = (PointerArg old_sp, m1)"
  shows "\<exists>k'. SyscallEventHandlerReturn ss TaskScheduler task k
               = Inr (fst (onTaskFinished TaskScheduler task (setStackPointer ss task old_sp m1)
                        (scheduler k)), k')
           \<and> machine k' = setStackPointer ss task old_sp m1
           \<and> getStackPointer ss task (machine k') = old_sp
           \<and> (ss = SharedStackSupport \<longrightarrow> sharedTaskStackPointer (machine k') = old_sp)"
  using assms
  by (cases ss)
    (auto simp: SyscallEventHandlerReturn_def Let_def setStackPointer_def getStackPointer_def
      split: prod.splits)

theorem SyscallEventHandlerReturn_restores_stack_pointer_witness:
  "getSyscallArgument SharedStackSupport 1 (sample_machine (\<lambda>i. PointerArg 32))
     = (PointerArg 32, snd (getSyscallArgument SharedStackSupport 1 (sample_machine (\<lambda>i. PointerArg 32))))
   \<and> (\<exists>k'. SyscallEventHandlerReturn SharedStackSupport sample_scheduler 1
              \<lparr>machine = sample_machine (\<lambda>i. PointerArg 32), scheduler = (), controller = ()\<rparr>
            = Inr (0, k')
        \<and> getStackPointer SharedStackSupport 1 (machine k') = 32
        \<and> sharedTaskStackPointer (machine k') = 32)"
proof -
  have g: "getSyscallArgument SharedStackSupport 1
             (machine \<lparr>machine = sample_machine (\<lambda>i. PointerArg 32), scheduler = (), controller = ()\<rparr>)
     = (PointerArg 32, snd (getSyscallArgument SharedStackSupport 1 (sample_machine (\<lambda>i. PointerArg 32))))"
    by (simp add: getSyscallArgument_def Let_def sample_machine_def getStackPointer_def)
  from SyscallEventHandlerReturn_restores_stack_pointer[OF g, of sample_scheduler] g
  show ?thesis by (auto simp: sample_scheduler_def)
qed

text \<open>
  C6. The preemptive injector is the context builder on \<open>(prev, next)\<close> when the
  priority of \<open>next\<close> is greater than that of \<open>prev\<close>, and leaves the machine as it is
  otherwise; the cooperative injector is the context builder on \<open>(prev, next)\<close> when
  \<open>next\<close> is another task than \<open>prev\<close>, and leaves the machine as it is otherwise.
  This holds for every context builder.
\<close>

theorem trampoline_context_injectors_gate:
  "(getPriority nxt m > getPriority prev m \<longrightarrow>
      PreemptiveEventHandlerTrampolineContextInjector ContextBuilder prev nxt m
        = ContextBuilder prev nxt m)
   \<and> (\<not> getPriority nxt m > getPriority prev m \<longrightarrow>
      PreemptiveEventHandlerTrampolineContextInjector ContextBuilder prev nxt m = m)
   \<and> (nxt \<noteq> prev \<longrightarrow>
      CooperativeEventHandlerTrampolineContextInjector ContextBuilder prev nxt m
        = ContextBuilder prev nxt m)
   \<and> (nxt = prev \<longrightarrow>
      CooperativeEventHandlerTrampolineContextInjector ContextBuilder prev nxt m = m)"
  by (simp add: PreemptiveEventHandlerTrampolineContextInjector_def
      CooperativeEventHandlerTrampolineContextInjector_def task_greater_def)

theorem trampoline_context_injectors_gate_witness:
  "getPriority 1 (setPriority 1 2 (sample_machine (\<lambda>i. IntArg 0)))
     > getPriority 0 (setPriority 1 2 (sample_machine (\<lambda>i. IntArg 0)))
   \<and> PreemptiveEventHandlerTrampolineContextInjector (\<lambda>prev nxt. setStackPointer SharedStackSupport nxt 48)
        0 1 (setPriority 1 2 (sample_machine (\<lambda>i. IntArg 0)))
      = setStackPointer SharedStackSupport 1 48 (setPriority 1 2 (sample_machine (\<lambda>i. IntArg 0)))
   \<and> PreemptiveEventHandlerTrampolineContextInjector (\<lambda>prev nxt. setStackPointer SharedStackSupport nxt 48)
        1 0 (setPriority 1 2 (sample_machine (\<lambda>i. IntArg 0)))
      = setPriority 1 2 (sample_machine (\<lambda>i. IntArg 0))
   \<and> CooperativeEventHandlerTrampolineContextInjector (\<lambda>prev nxt. setStackPointer SharedStackSupport nxt 48)
        0 1 (sample_machine (\<lambda>i. IntArg 0))
      = setStackPointer SharedStackSupport 1 48 (sample_machine (\<lambda>i. IntArg 0))
   \<and> CooperativeEventHandlerTrampolineContextInjector (\<lambda>prev nxt. setStackPointer SharedStackSupport nxt 48)
        1 1 (sample_machine (\<lambda>i. IntArg 0))
      = sample_machine (\<lambda>i. IntArg 0)"
proof -
  have p: "getPriority 1 (setPriority 1 2 (sample_machine (\<lambda>i. IntArg 0)))
     > getPriority 0 (setPriority 1 2 (sample_machine (\<lambda>i. IntArg 0)))"
    by (simp add: getPriority_def setPriority_def sample_machine_def)
  have q: "\<not> getPriority 0 (setPriority 1 2 (sample_machine (\<lambda>i. IntArg 0)))
     > getPriority 1 (setPriority 1 2 (sample_machine (\<lambda>i. IntArg 0)))"
    by (simp add: getPriority_def setPriority_def sample_machine_def)
  have d: "(1::nat) \<noteq> 0" by simp
  note up = trampoline_context_injectors_gate[where nxt = 1 and prev = 0
      and m = "setPriority 1 2 (sample_machine (\<lambda>i. IntArg 0))"
      and ContextBuilder = "\<lambda>prev nxt. setStackPointer SharedStackSupport nxt 48"]
  note down = trampoline_context_injectors_gate[where nxt = 0 and prev = 1
      and m = "setPriority 1 2 (sample_machine (\<lambda>i. IntArg 0))"
      and ContextBuilder = "\<lambda>prev nxt. setStackPointer SharedStackSupport nxt 48"]
  note other = trampoline_context_injectors_gate[where nxt = 1 and prev = 0
      and m = "sample_machine (\<lambda>i. IntArg 0)"
      and ContextBuilder = "\<lambda>prev nxt. setStackPointer SharedStackSupport nxt 48"]
  note same = trampoline_context_injectors_gate[where nxt = 1 and prev = 1
      and m = "sample_machine (\<lambda>i. IntArg 0)"
      and ContextBuilder = "\<lambda>prev nxt. setStackPointer SharedStackSupport nxt 48"]
  from p q d up down other same show ?thesis by blast
qed

text \<open>
  C7. One iteration of the dispatcher from \<open>(prev, next)\<close>: the injectors run on
  \<open>(prev, next)\<close> from the left, the context switcher returns an identifier for
  \<open>(prev, next)\<close> in the state they leave, and the routine the mapper gives for the
  identifier runs on \<open>next\<close>. When the routine ends in a fault so does the iteration;
  when it returns the task \<open>t\<close> the iteration ends in \<open>(next, t)\<close>, which is
  \<open>(next, next)\<close> for a routine that returns its input task.
\<close>

theorem dispatch_one_iteration:
  assumes "switchTask (prevTask this) (nextTask this)
             (foldl (\<lambda>k Injector. Injector (prevTask this) (nextTask this) k) k Injectors)
           = (ident, k2)"
  shows "(\<forall>e. ServiceRoutineMapper ident (nextTask this) k2 = Inl e \<longrightarrow>
            dispatch (Suc 0) Injectors switchTask ServiceRoutineMapper (this, k) = Inl e)
       \<and> (\<forall>t k3. ServiceRoutineMapper ident (nextTask this) k2 = Inr (t, k3) \<longrightarrow>
            dispatch (Suc 0) Injectors switchTask ServiceRoutineMapper (this, k)
              = Inr (\<lparr>prevTask = nextTask this, nextTask = t\<rparr>, k3))
       \<and> (\<forall>k3. ServiceRoutineMapper ident (nextTask this) k2 = Inr (nextTask this, k3) \<longrightarrow>
            dispatch (Suc 0) Injectors switchTask ServiceRoutineMapper (this, k)
              = Inr (\<lparr>prevTask = nextTask this, nextTask = nextTask this\<rparr>, k3))"
  using assms by (simp add: injections_foldl Let_def)

theorem dispatch_one_iteration_witness:
  "dispatch (Suc 0)
     [CooperativeEventHandlerTrampolineContextInjector (\<lambda>prev nxt. setStackPointer SharedStackSupport nxt 48)]
     (\<lambda>prev nxt k. (5 :: nat, k))
     (\<lambda>ident. if ident = 5 then (\<lambda>task k. Inr (task, k)) else UnknownServiceIdentifier)
     (\<lparr>prevTask = 0, nextTask = 1\<rparr>, sample_machine (\<lambda>i. IntArg 0))
   = Inr (\<lparr>prevTask = 1, nextTask = 1\<rparr>,
          setStackPointer SharedStackSupport 1 48 (sample_machine (\<lambda>i. IntArg 0)))"
proof -
  have sw: "(\<lambda>prev nxt k. (5 :: nat, k)) (prevTask \<lparr>prevTask = 0, nextTask = 1\<rparr>)
              (nextTask \<lparr>prevTask = 0, nextTask = 1\<rparr>)
              (foldl (\<lambda>k Injector. Injector (prevTask \<lparr>prevTask = 0, nextTask = 1\<rparr>)
                        (nextTask \<lparr>prevTask = 0, nextTask = 1\<rparr>) k)
                 (sample_machine (\<lambda>i. IntArg 0))
                 [CooperativeEventHandlerTrampolineContextInjector
                    (\<lambda>prev nxt. setStackPointer SharedStackSupport nxt 48)])
            = (5, setStackPointer SharedStackSupport 1 48 (sample_machine (\<lambda>i. IntArg 0)))"
    by (simp add: CooperativeEventHandlerTrampolineContextInjector_def)
  from dispatch_one_iteration[where switchTask = "\<lambda>prev nxt k. (5 :: nat, k)"
      and ServiceRoutineMapper =
        "\<lambda>ident. if ident = 5 then (\<lambda>task k. Inr (task, k)) else UnknownServiceIdentifier",
      OF sw]
  show ?thesis by simp
qed

text \<open>
  C8. For as many arguments as initializers, \<open>TaskInitializerBuilderWithArgs\<close> returns
  true exactly when every initializer, invoked in declaration order on the state its
  predecessor left, returns true, and the final state is the one the last initializer
  left. It returns false exactly when the initializers before some position all return
  true and the one at that position returns false, and the final state is the one this
  initializer left: the initializers after it are not invoked.
\<close>

theorem TaskInitializerBuilderWithArgs_in_order_until_false:
  assumes "length Initializers = length args"
  shows "(TaskInitializerBuilderWithArgs Initializers task args m = Inr (True, m') \<longleftrightarrow>
           (\<exists>ms. ms 0 = m \<and> ms (length Initializers) = m' \<and>
              (\<forall>i<length Initializers.
                 initializer_returns (Initializers ! i) task (args ! i) (ms i) True (ms (Suc i)))))
       \<and> (TaskInitializerBuilderWithArgs Initializers task args m = Inr (False, m') \<longleftrightarrow>
           (\<exists>j<length Initializers. \<exists>ms. ms 0 = m \<and>
              (\<forall>i<j. initializer_returns (Initializers ! i) task (args ! i) (ms i) True (ms (Suc i))) \<and>
              initializer_returns (Initializers ! j) task (args ! j) (ms j) False m'))"
  using assms
  by (simp add: TaskInitializerBuilderWithArgs_def fold_initializers_true_iff
      fold_initializers_false_iff cong: conj_cong)

theorem TaskInitializerBuilderWithArgs_in_order_until_false_witness:
  "length [AssignUniqueIdentifier, failing_initializer, AssignPriority :: unit type_argument]
     = length [UInt32Arg 7, PointerArg 0, PriorityArg 3]
   \<and> TaskInitializerBuilderWithArgs
        [AssignUniqueIdentifier, failing_initializer, AssignPriority :: unit type_argument] 1
        [UInt32Arg 7, PointerArg 0, PriorityArg 3] (sample_machine (\<lambda>i. IntArg 0))
      = Inr (False, setUniqueIdentifier 1 7 (sample_machine (\<lambda>i. IntArg 0)))
   \<and> (\<exists>j<length [AssignUniqueIdentifier, failing_initializer, AssignPriority :: unit type_argument].
        \<exists>ms. ms 0 = sample_machine (\<lambda>i. IntArg 0) \<and>
          (\<forall>i<j. initializer_returns
                   ([AssignUniqueIdentifier, failing_initializer, AssignPriority :: unit type_argument] ! i)
                   1 ([UInt32Arg 7, PointerArg 0, PriorityArg 3] ! i) (ms i) True (ms (Suc i))) \<and>
          initializer_returns
            ([AssignUniqueIdentifier, failing_initializer, AssignPriority :: unit type_argument] ! j)
            1 ([UInt32Arg 7, PointerArg 0, PriorityArg 3] ! j) (ms j) False
            (setUniqueIdentifier 1 7 (sample_machine (\<lambda>i. IntArg 0))))"
proof -
  have len: "length [AssignUniqueIdentifier, failing_initializer, AssignPriority :: unit type_argument]
     = length [UInt32Arg 7, PointerArg 0, PriorityArg 3]" by simp
  have ev: "TaskInitializerBuilderWithArgs
        [AssignUniqueIdentifier, failing_initializer, AssignPriority :: unit type_argument] 1
        [UInt32Arg 7, PointerArg 0, PriorityArg 3] (sample_machine (\<lambda>i. IntArg 0))
      = Inr (False, setUniqueIdentifier 1 7 (sample_machine (\<lambda>i. IntArg 0)))"
    by (simp add: TaskInitializerBuilderWithArgs_def AssignUniqueIdentifier_def
        AssignUniqueIdentifier_call_def failing_initializer_def initializer_def)
  note run = TaskInitializerBuilderWithArgs_in_order_until_false[OF len, THEN conjunct2,
      THEN iffD1, OF ev]
  show ?thesis by (rule conjI[OF len conjI[OF ev run]])
qed

text \<open>
  C9. For every input task the routine \<open>UnknownServiceIdentifier\<close> ends in the fatal
  error "Unknown system call identifier." and so never returns a next task.
\<close>

theorem UnknownServiceIdentifier_halts:
  "UnknownServiceIdentifier task k = Inl (Fatal ''Unknown system call identifier.'')
   \<and> (\<forall>r. UnknownServiceIdentifier task k \<noteq> Inr r)"
  by (simp add: UnknownServiceIdentifier_def pfatal_def)

text \<open>
  C10. \<open>operator()\<close> of \<open>AssignDedicatedRecyclableStackWithSize\<close> ends \<open>IllTyped\<close> for every
  task, argument and state, because its first statement calls \<open>setPrivateStack\<close>: it
  does not return true. On the sample kernel, the routine composed of the four
  initializers allocates block 1 and then ends \<open>IllTyped\<close> in the first initializer,
  where the claim has it return the new task.
\<close>

theorem AssignDedicatedRecyclableStackWithSize_is_rejected:
  "AssignDedicatedRecyclableStackWithSize_call ss task stackInfo m = Inl IllTyped
   \<and> pool_allocate [1, 2] = (Some 1, [2])
   \<and> ServiceRoutineBuilder DedicatedStackSupport sample_scheduler pool_controller
         [AssignDedicatedRecyclableStackWithSize DedicatedStackSupport,
          SetupExecutionContext DedicatedStackSupport (\<lambda>task entryPoint m. m),
          AssignUniqueIdentifier, AssignPriority] 0
         [StackArg 128 64, PointerArg 4096, UInt32Arg 7, PriorityArg 3]
         \<lparr>machine = sample_machine (\<lambda>i. IntArg 0), scheduler = (), controller = [1, 2]\<rparr>
       = Inl IllTyped"
  by (simp add: AssignDedicatedRecyclableStackWithSize_call_def setPrivateStack_def
      ServiceRoutineBuilder_def pool_controller_def pool_allocate_def
      TaskInitializerBuilderWithArgs_def AssignDedicatedRecyclableStackWithSize_def
      initializer_def)

end
